theory Spec2Isabelle
  imports Main "HOL-Library.Word"
begin

unbundle bit_operations_syntax

section \<open>simple\_fs.c: a read-only file system with a fixed catalog\<close>

text \<open>
  A shallow embedding of \<^verbatim>\<open>simple_fs.c\<close> on an LP64 kernel: \<^verbatim>\<open>unsigned long\<close>,
  \<^verbatim>\<open>loff_t\<close> and \<^verbatim>\<open>pgoff_t\<close> are 64-bit words, \<^verbatim>\<open>int\<close> is a 32-bit word
  read through \<open>sint\<close>, \<^verbatim>\<open>umode_t\<close> is a 16-bit word. Undefined behaviour of the C
  (a read through an uninitialised or null pointer, an access outside an object) and a
  wait that nothing ends are values of the type \<open>fault\<close>; a function that can reach one
  returns \<open>fault + result\<close>. The calls to \<^verbatim>\<open>pr_info\<close> only append to the kernel log
  and are left out. The functions that read the global table \<^verbatim>\<open>Entries\<close> take the
  table as their first argument; the table of the source is the constant \<open>Entries\<close>.
  The functions of the host (\<^verbatim>\<open>iget_locked\<close>, \<^verbatim>\<open>d_splice_alias\<close>,
  \<^verbatim>\<open>dir_emit\<close>, the page flags, \<^verbatim>\<open>register_filesystem\<close>) are modelled by what
  the kernel documents of them. The mount glue (\<^verbatim>\<open>simplefs_fill_super\<close>,
  \<^verbatim>\<open>simple_mount\<close>, \<^verbatim>\<open>simplefs_kill_sb\<close>) is not part of the model.
\<close>

subsection \<open>Constants of the kernel headers\<close>

text \<open>\<^verbatim>\<open>linux/fs_types.h\<close>, \<^verbatim>\<open>linux/stat.h\<close>, \<^verbatim>\<open>asm/errno.h\<close>, \<^verbatim>\<open>asm/page.h\<close>.\<close>

definition DT_DIR :: "32 word" where "DT_DIR = 4"
definition DT_REG :: "32 word" where "DT_REG = 8"

definition S_IFMT :: "16 word" where "S_IFMT = 0xF000"
definition S_IFDIR :: "16 word" where "S_IFDIR = 0x4000"
definition S_IFREG :: "16 word" where "S_IFREG = 0x8000"

text \<open>The permission bits the source writes in octal: \<^verbatim>\<open>0555\<close>, \<^verbatim>\<open>0444\<close> and the write bits \<^verbatim>\<open>0222\<close>.\<close>

definition MODE_0555 :: "16 word" where "MODE_0555 = 5 * 64 + 5 * 8 + 5"
definition MODE_0444 :: "16 word" where "MODE_0444 = 4 * 64 + 4 * 8 + 4"
definition MODE_0222 :: "16 word" where "MODE_0222 = 2 * 64 + 2 * 8 + 2"

definition ENOMEM :: int where "ENOMEM = 12"
definition EBUSY :: int where "EBUSY = 16"
definition EINVAL :: int where "EINVAL = 22"

definition PAGE_SIZE :: nat where "PAGE_SIZE = 4096"

subsection \<open>Faults, pointers and the read-only data\<close>

datatype fault =
  UninitializedPointer  \<comment> \<open>a read through a pointer that was never assigned\<close>
| NullPointer           \<comment> \<open>a read through \<^verbatim>\<open>NULL\<close>\<close>
| OutOfBounds           \<comment> \<open>an access outside the object pointed to\<close>
| WaitsForever          \<comment> \<open>a wait on a flag that nothing clears\<close>

text \<open>
  The string literals that \<^verbatim>\<open>Entry.content\<close> points to live in read-only data.
  A \<^verbatim>\<open>char *\<close> to one of them is its address, \<open>None\<close> is \<^verbatim>\<open>NULL\<close>. The store
  maps an address to the characters of the literal; the object is one byte longer, the
  terminating NUL. The addresses are labels: only their being distinct matters.
  \<^verbatim>\<open>Entry.name\<close> is only ever read and compared by value, so it is kept as
  its characters.
\<close>

type_synonym addr = nat

definition NUL :: char where "NUL = CHR 0x00"

definition rodata :: "addr \<Rightarrow> string option" where
  "rodata = [100 \<mapsto> [], 101 \<mapsto> [], 102 \<mapsto> ''Hello World!'']"

definition object_bytes :: "string \<Rightarrow> string" where
  "object_bytes s = s @ [NUL]"

text \<open>\<^verbatim>\<open>strlen\<close> through a \<^verbatim>\<open>char *\<close>: the characters before the first NUL.\<close>

definition strlen_at :: "addr option \<Rightarrow> fault + nat" where
  "strlen_at p =
     (case p of
        None \<Rightarrow> Inl NullPointer
      | Some a \<Rightarrow>
          (case rodata a of
             None \<Rightarrow> Inl OutOfBounds
           | Some s \<Rightarrow> Inr (length (takeWhile (\<lambda>c. c \<noteq> NUL) (object_bytes s)))))"

text \<open>
  \<^verbatim>\<open>strcmp\<close> of \<^verbatim>\<open>lib/string.c\<close>: 0 on equal strings, otherwise \<open>-1\<close> or \<open>1\<close>
  by the first differing byte, read as \<^verbatim>\<open>unsigned char\<close>.
\<close>

fun strcmp :: "string \<Rightarrow> string \<Rightarrow> int" where
  "strcmp [] [] = 0"
| "strcmp [] (b # bs) = - 1"
| "strcmp (a # as) [] = 1"
| "strcmp (a # as) (b # bs) =
     (if a = b then strcmp as bs
      else if (of_char a :: nat) < of_char b then - 1 else 1)"

text \<open>
  \<^verbatim>\<open>memcpy(dst, src, n)\<close> into a page: the first \<open>n\<close> bytes of the page are
  replaced by the first \<open>n\<close> bytes of the source object, the rest of the page stays.
  With \<open>n = 0\<close> nothing is read or written.
\<close>

definition memcpy :: "string \<Rightarrow> addr option \<Rightarrow> nat \<Rightarrow> fault + string" where
  "memcpy dst src n =
     (if n = 0 then Inr dst
      else case src of
        None \<Rightarrow> Inl NullPointer
      | Some a \<Rightarrow>
          (case rodata a of
             None \<Rightarrow> Inl OutOfBounds
           | Some s \<Rightarrow>
               if length (object_bytes s) < n \<or> length dst < n then Inl OutOfBounds
               else Inr (take n (object_bytes s) @ drop n dst)))"

subsection \<open>The catalog\<close>

record Entry =
  name :: string
  ino :: "64 word"
  type :: "32 word"
  content :: "addr option"

definition Entries :: "Entry list" where
  "Entries =
     [\<lparr>name = ''.'', ino = 1, type = DT_DIR, content = Some 100\<rparr>,
      \<lparr>name = ''..'', ino = 1, type = DT_DIR, content = Some 101\<rparr>,
      \<lparr>name = ''message.txt'', ino = 2, type = DT_REG, content = Some 102\<rparr>]"

subsection \<open>Inodes and the host's inode cache\<close>

datatype file_ops = no_open_fops | dir_fops | generic_ro_fops
datatype inode_ops = empty_iops | dir_iops
datatype aspace_ops = empty_aops | reg_aops

record inode =
  i_ino :: "64 word"
  i_mode :: "16 word"
  i_size :: "64 word"
  i_blocks :: "64 word"
  i_private :: "addr option"
  i_fop :: file_ops
  i_op :: inode_ops
  a_ops :: aspace_ops   \<comment> \<open>\<^verbatim>\<open>i_mapping->a_ops\<close>\<close>
  I_NEW :: bool         \<comment> \<open>\<^verbatim>\<open>i_state & I_NEW\<close>\<close>

text \<open>
  A pointer to an inode is \<^verbatim>\<open>NULL\<close>, an \<^verbatim>\<open>ERR_PTR\<close>, or a reference to the
  inode the cache of the super block holds under an inode number.
\<close>

datatype inode_ptr = NULL | ERR_PTR int | Ptr "64 word"

record super_block =
  s_inodes :: "64 word \<Rightarrow> inode option"   \<comment> \<open>the inode cache of this mount\<close>
  s_avail :: nat                          \<comment> \<open>inodes the host can still allocate\<close>

definition alloc_inode :: "64 word \<Rightarrow> inode" where
  "alloc_inode n =
     \<lparr>i_ino = n, i_mode = 0, i_size = 0, i_blocks = 0, i_private = None,
      i_fop = no_open_fops, i_op = empty_iops, a_ops = empty_aops, I_NEW = True\<rparr>"

text \<open>
  The host's \<^verbatim>\<open>iget_locked\<close>: an inode already in the cache is returned once its
  \<^verbatim>\<open>I_NEW\<close> is clear (the host waits for that); otherwise a new inode is allocated,
  hashed under the number and returned with \<^verbatim>\<open>I_NEW\<close> set, or \<^verbatim>\<open>NULL\<close> when the
  host has no memory.
\<close>

definition iget_locked :: "super_block \<Rightarrow> 64 word \<Rightarrow> fault + (super_block \<times> inode_ptr)" where
  "iget_locked sb n =
     (case s_inodes sb n of
        Some i \<Rightarrow> if I_NEW i then Inl WaitsForever else Inr (sb, Ptr n)
      | None \<Rightarrow>
          if s_avail sb = 0 then Inr (sb, NULL)
          else Inr (sb\<lparr>s_inodes := (s_inodes sb)(n \<mapsto> alloc_inode n),
                        s_avail := s_avail sb - 1\<rparr>, Ptr n))"

subsection \<open>\<^verbatim>\<open>simplefs_iget\<close>\<close>

text \<open>
  Lines 104 to 107: the local \<^verbatim>\<open>Entry *e\<close> is declared without a value (\<open>None\<close>)
  and assigned the address of an element of the table, kept as its index, only for the
  inode numbers 1 and 2.
\<close>

definition iget_entry :: "64 word \<Rightarrow> nat option" where
  "iget_entry n =
     (let e = None;
          e = (if n = 1 then Some 0 else e);
          e = (if n = 2 then Some 2 else e)
      in e)"

text \<open>Lines 113 to 119 and 122 to 130: the two blocks that fill the new inode.\<close>

definition iget_fill_dir :: "Entry \<Rightarrow> 64 word \<Rightarrow> inode \<Rightarrow> inode" where
  "iget_fill_dir e n i =
     (if type e = DT_DIR
      then i\<lparr>i_mode := S_IFDIR OR MODE_0555, i_fop := dir_fops, i_op := dir_iops,
             i_size := 512, i_ino := n\<rparr>
      else i)"

definition iget_fill_reg :: "Entry \<Rightarrow> 64 word \<Rightarrow> inode \<Rightarrow> fault + inode" where
  "iget_fill_reg e n i =
     (if type e = DT_REG
      then (case strlen_at (content e) of
              Inl f \<Rightarrow> Inl f
            | Inr len \<Rightarrow>
                Inr (i\<lparr>i_mode := S_IFREG OR MODE_0444, i_fop := generic_ro_fops,
                        i_size := of_nat len, i_blocks := 1, i_ino := n,
                        i_private := content e, a_ops := reg_aops\<rparr>))
      else Inr i)"

definition simplefs_iget ::
  "Entry list \<Rightarrow> super_block \<Rightarrow> 64 word \<Rightarrow> fault + (super_block \<times> inode_ptr)" where
  "simplefs_iget tab sb n =
     (case iget_locked sb n of
        Inl f \<Rightarrow> Inl f
      | Inr (sb1, p) \<Rightarrow>
          (case p of
             NULL \<Rightarrow> Inr (sb1, ERR_PTR (- ENOMEM))
           | ERR_PTR x \<Rightarrow> Inl OutOfBounds
           | Ptr k \<Rightarrow>
               (case s_inodes sb1 k of
                  None \<Rightarrow> Inl OutOfBounds
                | Some i \<Rightarrow>
                    if \<not> I_NEW i then Inr (sb1, Ptr k)
                    else (case iget_entry n of
                            None \<Rightarrow> Inl UninitializedPointer
                          | Some j \<Rightarrow>
                              if length tab \<le> j then Inl OutOfBounds
                              else (case iget_fill_reg (tab ! j) n (iget_fill_dir (tab ! j) n i) of
                                      Inl f \<Rightarrow> Inl f
                                    | Inr i' \<Rightarrow>
                                        Inr (sb1\<lparr>s_inodes := (s_inodes sb1)(k \<mapsto> i')\<rparr>,
                                             Ptr k))))))"

subsection \<open>\<^verbatim>\<open>simplefs_lookup\<close>\<close>

text \<open>
  A dentry is negative while its \<open>d_inode\<close> is \<^verbatim>\<open>NULL\<close>. The host's
  \<^verbatim>\<open>d_splice_alias\<close> hands an \<^verbatim>\<open>ERR_PTR\<close> back as the error, and otherwise
  attaches the inode (or \<^verbatim>\<open>NULL\<close>, which leaves the dentry negative: the host's
  "no such entry") and returns \<^verbatim>\<open>NULL\<close>. The case of a directory inode that already
  has a dentry, where the host returns that dentry, is not modelled.
\<close>

record dentry =
  d_name :: string
  d_inode :: inode_ptr

datatype dentry_ptr = D_NULL | D_ERR_PTR int

definition d_splice_alias :: "inode_ptr \<Rightarrow> dentry \<Rightarrow> dentry_ptr \<times> dentry" where
  "d_splice_alias p d =
     (case p of
        ERR_PTR x \<Rightarrow> (D_ERR_PTR x, d)
      | NULL \<Rightarrow> (D_NULL, d\<lparr>d_inode := NULL\<rparr>)
      | Ptr k \<Rightarrow> (D_NULL, d\<lparr>d_inode := Ptr k\<rparr>))"

text \<open>
  The loop of lines 169 to 173, from index \<open>i\<close> on: three elements of the table are
  compared, and every one whose name matches has its inode fetched into the local
  \<^verbatim>\<open>inode\<close>; the loop has no \<^verbatim>\<open>break\<close>. The counter runs from 0 to 3, so a
  natural number stands for the \<^verbatim>\<open>int\<close>.
\<close>

function lookup_loop ::
  "Entry list \<Rightarrow> string \<Rightarrow> nat \<Rightarrow> super_block \<Rightarrow> inode_ptr \<Rightarrow> fault + (super_block \<times> inode_ptr)" where
  "lookup_loop tab nm i sb inode =
     (if i < 3 then
        (if length tab \<le> i then Inl OutOfBounds
         else if strcmp (name (tab ! i)) nm = 0 then
           (case simplefs_iget tab sb (ino (tab ! i)) of
              Inl f \<Rightarrow> Inl f
            | Inr (sb', p) \<Rightarrow> lookup_loop tab nm (i + 1) sb' p)
         else lookup_loop tab nm (i + 1) sb inode)
      else Inr (sb, inode))"
  by pat_completeness auto
termination
  by (relation "measure (\<lambda>(tab, nm, i, sb, inode). 3 - i)") auto

text \<open>The directory inode is used for its super block only, which is passed instead.\<close>

definition simplefs_lookup ::
  "Entry list \<Rightarrow> super_block \<Rightarrow> dentry \<Rightarrow> fault + (super_block \<times> dentry_ptr \<times> dentry)" where
  "simplefs_lookup tab sb d =
     (case lookup_loop tab (d_name d) 0 sb NULL of
        Inl f \<Rightarrow> Inl f
      | Inr (sb', inode) \<Rightarrow> Inr (sb', d_splice_alias inode d))"

subsection \<open>\<^verbatim>\<open>simplefs_readdir\<close>\<close>

text \<open>
  What \<^verbatim>\<open>dir_emit\<close> hands to the actor of the context, and the context: the cursor
  \<open>pos\<close>, the actor, and the state \<open>sink\<close> the actor keeps (the caller's buffer).
  The actor answers whether it took the entry.
\<close>

record dirent =
  de_name :: string
  de_namlen :: nat
  de_off :: "64 word"
  de_ino :: "64 word"
  de_type :: "32 word"

record 's dir_context =
  pos :: "64 word"
  actor :: "'s \<Rightarrow> dirent \<Rightarrow> bool \<times> 's"
  sink :: 's

definition dir_emit ::
  "'s dir_context \<Rightarrow> string \<Rightarrow> nat \<Rightarrow> 64 word \<Rightarrow> 32 word \<Rightarrow> bool \<times> 's dir_context" where
  "dir_emit cxt nm len n t =
     (case actor cxt (sink cxt)
             \<lparr>de_name = nm, de_namlen = len, de_off = pos cxt, de_ino = n, de_type = t\<rparr> of
        (ok, s) \<Rightarrow> (ok, cxt\<lparr>sink := s\<rparr>))"

text \<open>
  The loop of lines 186 to 191 from the \<^verbatim>\<open>int i\<close> on, compared as a signed value.
  The count and the cursor are incremented before the entry is offered to
  \<^verbatim>\<open>dir_emit\<close>; an index outside the table is a fault.
\<close>

function readdir_loop ::
  "Entry list \<Rightarrow> 32 word \<Rightarrow> 32 word \<Rightarrow> 's dir_context \<Rightarrow> fault + (32 word \<times> 's dir_context)" where
  "readdir_loop tab i amount cxt =
     (if i <s 3 then
        (if sint i < 0 \<or> int (length tab) \<le> sint i then Inl OutOfBounds
         else
           (case dir_emit (cxt\<lparr>pos := pos cxt + 1\<rparr>) (name (tab ! nat (sint i)))
                   (length (name (tab ! nat (sint i)))) (ino (tab ! nat (sint i)))
                   (type (tab ! nat (sint i))) of
              (ok, cxt') \<Rightarrow>
                if \<not> ok then Inr (amount + 1, cxt')
                else readdir_loop tab (i + 1) (amount + 1) cxt'))
      else Inr (amount, cxt))"
  by pat_completeness auto

termination readdir_loop
proof (relation "measure (\<lambda>(tab, i, amount, cxt). nat (3 - sint i))")
  show "wf (measure (\<lambda>(tab :: Entry list, i :: 32 word, amount :: 32 word,
                       cxt :: 's dir_context). nat (3 - sint i)))"
    by simp
next
  fix tab :: "Entry list" and i amount :: "32 word" and cxt x :: "'s dir_context"
    and ok :: bool and cxt' :: "'s dir_context"
  assume "i <s 3" and "\<not> (sint i < 0 \<or> int (length tab) \<le> sint i)"
  then have "sint (i + 1) = sint i + 1" and "sint i < 3"
    using sint_ge [of i]
    by (simp_all add: word_sless_alt sint_word_ariths signed_take_bit_int_eq_self)
  then show "((tab, i + 1, amount + 1, cxt'), (tab, i, amount, cxt))
               \<in> measure (\<lambda>(tab, i, amount, cxt). nat (3 - sint i))"
    by simp
qed

text \<open>\<^verbatim>\<open>i = cxt->pos\<close> keeps the low 32 bits of the 64-bit cursor.\<close>

definition simplefs_readdir ::
  "Entry list \<Rightarrow> 's dir_context \<Rightarrow> fault + (32 word \<times> 's dir_context)" where
  "simplefs_readdir tab cxt = readdir_loop tab (ucast (pos cxt)) 0 cxt"

subsection \<open>\<^verbatim>\<open>simplefs_read_folio\<close> and \<^verbatim>\<open>simplefs_readpage\<close>\<close>

text \<open>
  A folio of one page (and, before 5.15, the page): its index in the file, the bytes
  of the page, and the two flags of the page cache. The index and \<open>i_size\<close> are
  compared as unsigned 64-bit values, the usual arithmetic conversion of
  \<^verbatim>\<open>unsigned long\<close> against \<^verbatim>\<open>long long\<close>.
\<close>

record folio =
  index :: "64 word"
  data :: string
  uptodate :: bool
  locked :: bool

definition folio_mark_uptodate :: "folio \<Rightarrow> folio" where
  "folio_mark_uptodate f = f\<lparr>uptodate := True\<rparr>"

definition folio_unlock :: "folio \<Rightarrow> folio" where
  "folio_unlock f = f\<lparr>locked := False\<rparr>"

definition simplefs_read_folio :: "inode \<Rightarrow> folio \<Rightarrow> fault + (int \<times> folio)" where
  "simplefs_read_folio inode f =
     (if index f > i_size inode then Inr (0, folio_unlock (folio_mark_uptodate f))
      else (case memcpy (data f) (i_private inode) (unat (i_size inode)) of
              Inl x \<Rightarrow> Inl x
            | Inr bytes \<Rightarrow>
                Inr (0, folio_unlock (folio_mark_uptodate (f\<lparr>data := bytes\<rparr>)))))"

type_synonym page = folio

definition SetPageUptodate :: "page \<Rightarrow> page" where
  "SetPageUptodate p = p\<lparr>uptodate := True\<rparr>"

definition unlock_page :: "page \<Rightarrow> page" where
  "unlock_page p = p\<lparr>locked := False\<rparr>"

definition simplefs_readpage :: "inode \<Rightarrow> page \<Rightarrow> fault + (int \<times> page)" where
  "simplefs_readpage inode p =
     (if index p > i_size inode then Inr (0, unlock_page (SetPageUptodate p))
      else (case memcpy (data p) (i_private inode) (unat (i_size inode)) of
              Inl x \<Rightarrow> Inl x
            | Inr bytes \<Rightarrow>
                Inr (0, unlock_page (SetPageUptodate (p\<lparr>data := bytes\<rparr>)))))"

subsection \<open>\<^verbatim>\<open>simplefs_init\<close> and \<^verbatim>\<open>simplefs_exit\<close>\<close>

text \<open>
  The host keeps the names of the registered file system types.
  \<^verbatim>\<open>register_filesystem\<close> refuses a name that is registered already with
  \<^verbatim>\<open>-EBUSY\<close>; \<^verbatim>\<open>unregister_filesystem\<close> removes the name, or answers
  \<^verbatim>\<open>-EINVAL\<close> when it is not there. The module's own state is the static \<^verbatim>\<open>ret\<close>.
\<close>

record kernel =
  filesystems :: "string list"
  ret :: int

definition simple_fs_type :: string where
  "simple_fs_type = ''simplefs''"

definition register_filesystem :: "string \<Rightarrow> kernel \<Rightarrow> int \<times> kernel" where
  "register_filesystem fs k =
     (if fs \<in> set (filesystems k) then (- EBUSY, k)
      else (0, k\<lparr>filesystems := filesystems k @ [fs]\<rparr>))"

definition unregister_filesystem :: "string \<Rightarrow> kernel \<Rightarrow> int \<times> kernel" where
  "unregister_filesystem fs k =
     (if fs \<in> set (filesystems k) then (0, k\<lparr>filesystems := removeAll fs (filesystems k)\<rparr>)
      else (- EINVAL, k))"

definition simplefs_init :: "kernel \<Rightarrow> int \<times> kernel" where
  "simplefs_init k =
     (case register_filesystem simple_fs_type k of
        (r, k') \<Rightarrow> (0, k'\<lparr>ret := r\<rparr>))"

definition simplefs_exit :: "kernel \<Rightarrow> kernel" where
  "simplefs_exit k =
     (if ret k = 0 then snd (unregister_filesystem simple_fs_type k) else k)"

subsection \<open>A table in which two entries share a name\<close>


subsection \<open>A caller's buffer with room for a fixed number of entries\<close>

text \<open>
  An actor for \<^verbatim>\<open>dir_emit\<close>, as the host's \<^verbatim>\<open>getdents\<close> has one: it appends the
  entry to the buffer while there is room and refuses it, leaving the buffer as it is,
  when the buffer is full.
\<close>

definition bounded_sink :: "nat \<Rightarrow> dirent list \<Rightarrow> dirent \<Rightarrow> bool \<times> dirent list" where
  "bounded_sink cap buf d = (if length buf < cap then (True, buf @ [d]) else (False, buf))"

subsection \<open>Resolving inode numbers one after the other\<close>


section \<open>Properties\<close>

lemma strcmp_eq_0: "strcmp a b = 0 \<longleftrightarrow> a = b"
  by (induction a b rule: strcmp.induct) auto

text \<open>
  A cache miss with memory left: \<^verbatim>\<open>simplefs_iget\<close> fills the inode the host has just
  allocated and stores it back under its number.
\<close>

lemma iget_fresh:
  assumes "s_inodes sb n = None" and "0 < s_avail sb"
  shows "simplefs_iget tab sb n =
     (case iget_entry n of
        None \<Rightarrow> Inl UninitializedPointer
      | Some j \<Rightarrow>
          if length tab \<le> j then Inl OutOfBounds
          else (case iget_fill_reg (tab ! j) n (iget_fill_dir (tab ! j) n (alloc_inode n)) of
                  Inl f \<Rightarrow> Inl f
                | Inr i' \<Rightarrow>
                    Inr (sb\<lparr>s_inodes := (s_inodes sb)(n \<mapsto> i'),
                            s_avail := s_avail sb - 1\<rparr>, Ptr n)))"
  using assms
  by (auto simp: simplefs_iget_def iget_locked_def alloc_inode_def
      split: option.splits sum.splits)

lemma iget_entry_cases:
  "iget_entry n = (if n = 2 then Some 2 else if n = 1 then Some 0 else None)"
  by (simp add: iget_entry_def)

lemma Entries_nth:
  "Entries ! 0 = \<lparr>name = ''.'', ino = 1, type = DT_DIR, content = Some 100\<rparr>"
  "Entries ! 1 = \<lparr>name = ''..'', ino = 1, type = DT_DIR, content = Some 101\<rparr>"
  "Entries ! 2 = \<lparr>name = ''message.txt'', ino = 2, type = DT_REG, content = Some 102\<rparr>"
  "Entries ! Suc 0 = \<lparr>name = ''..'', ino = 1, type = DT_DIR, content = Some 101\<rparr>"
  "length Entries = 3"
  by (simp_all add: Entries_def)

lemma less_3_cases: "k < (3::nat) \<Longrightarrow> k = 0 \<or> k = 1 \<or> k = 2"
  by arith


text \<open>The scan from an index on, when no later name matches: nothing changes.\<close>

lemma lookup_loop_no_match:
  "3 \<le> length tab \<Longrightarrow> \<forall>j. i \<le> j \<and> j < 3 \<longrightarrow> name (tab ! j) \<noteq> nm \<Longrightarrow>
   lookup_loop tab nm i sb p = Inr (sb, p)"
proof (induction tab nm i sb p rule: lookup_loop.induct)
  case (1 tab nm i sb inode)
  show ?case
  proof (cases "i < 3")
    case True
    with 1 show ?thesis
      by (subst lookup_loop.simps) (simp add: strcmp_eq_0)
  next
    case False
    then show ?thesis by (subst lookup_loop.simps) simp
  qed
qed


text \<open>With a single matching entry the scan is one call of \<^verbatim>\<open>simplefs_iget\<close>.\<close>

lemma lookup_loop_only_match:
  "3 \<le> length tab \<Longrightarrow> i \<le> k \<Longrightarrow> k < 3 \<Longrightarrow> name (tab ! k) = nm \<Longrightarrow>
   \<forall>j. j < 3 \<and> j \<noteq> k \<longrightarrow> name (tab ! j) \<noteq> nm \<Longrightarrow>
   lookup_loop tab nm i sb p = simplefs_iget tab sb (ino (tab ! k))"
proof (induction tab nm i sb p rule: lookup_loop.induct)
  case (1 tab nm i sb inode)
  from "1.prems" have i3: "i < 3" and len: "\<not> length tab \<le> i" by auto
  show ?case
  proof (cases "i = k")
    case True
    have "lookup_loop tab nm (k + 1) sb1 p1 = Inr (sb1, p1)" for sb1 p1
      using "1.prems" by (intro lookup_loop_no_match) auto
    with True "1.prems" i3 len show ?thesis
      by (subst lookup_loop.simps) (auto simp: strcmp_eq_0 split: sum.splits)
  next
    case False
    with "1.prems" have le: "i + 1 \<le> k" and ne: "name (tab ! i) \<noteq> nm" by auto
    then have F: "strcmp (name (tab ! i)) nm \<noteq> 0" by (simp add: strcmp_eq_0)
    have "lookup_loop tab nm i sb inode = lookup_loop tab nm (i + 1) sb inode"
      using i3 len F by (subst lookup_loop.simps) simp
    also have "\<dots> = simplefs_iget tab sb (ino (tab ! k))"
      using "1.IH"(2) [OF i3 len F "1.prems"(1) le "1.prems"(3,4,5)] .
    finally show ?thesis .
  qed
qed





text \<open>A new regular inode of the catalog is inode 2: 12 bytes at the address of the literal.\<close>

lemma iget_new_regular:
  assumes "s_inodes sb n = None" and "simplefs_iget Entries sb n = Inr (sb', Ptr n)"
    and "s_inodes sb' n = Some inode" and "i_mode inode AND S_IFMT = S_IFREG"
  shows "i_size inode = 12 \<and> i_private inode = Some 102"
proof -
  have avail: "0 < s_avail sb"
    using assms(1,2) by (cases "s_avail sb = 0") (auto simp: simplefs_iget_def iget_locked_def)
  show ?thesis
    using assms(2,3,4)
    by (auto simp: iget_fresh [OF assms(1) avail] iget_entry_cases Entries_nth
        iget_fill_reg_def iget_fill_dir_def DT_DIR_def DT_REG_def strlen_at_def rodata_def
        object_bytes_def NUL_def alloc_inode_def S_IFREG_def S_IFMT_def S_IFDIR_def
        MODE_0555_def split: if_splits)
qed

lemma memcpy_hello:
  "12 \<le> length dst \<Longrightarrow> memcpy dst (Some 102) 12 = Inr (''Hello World!'' @ drop 12 dst)"
  by (simp add: memcpy_def rodata_def object_bytes_def)

lemma iget_catalog_2:
  "simplefs_iget Entries \<lparr>s_inodes = Map.empty, s_avail = 1\<rparr> 2 =
     Inr (\<lparr>s_inodes = [2 \<mapsto> \<lparr>i_ino = 2, i_mode = 0x8124, i_size = 12, i_blocks = 1,
              i_private = Some 102, i_fop = generic_ro_fops, i_op = empty_iops,
              a_ops = reg_aops, I_NEW = True\<rparr>], s_avail = 0\<rparr>, Ptr 2)"
  by (simp add: iget_fresh iget_entry_cases Entries_nth iget_fill_reg_def iget_fill_dir_def
      DT_DIR_def DT_REG_def strlen_at_def rodata_def object_bytes_def NUL_def alloc_inode_def
      S_IFREG_def MODE_0444_def)

text \<open>The cursor and the loop of \<^verbatim>\<open>simplefs_readdir\<close>.\<close>

lemma pos_cases:
  "0 \<le> sint (p :: 64 word) \<Longrightarrow> sint p < 3 \<Longrightarrow> p = 0 \<or> p = 1 \<or> p = 2"
proof -
  assume "0 \<le> sint p" and "sint p < 3"
  then have "sint p = sint (0 :: 64 word) \<or> sint p = sint (1 :: 64 word)
             \<or> sint p = sint (2 :: 64 word)"
    by simp arith
  then show ?thesis
    by (simp only: word_eq_iff_signed [symmetric])
qed

lemma dir_emit_pos: "dir_emit c nm l n t = (ok, c') \<Longrightarrow> pos c' = pos c"
  by (auto simp: dir_emit_def split: prod.splits)

lemma sint_succ_below_3: "sint (i :: 32 word) < 3 \<Longrightarrow> sint (i + 1) = sint i + 1"
  using sint_ge [of i]
  by (simp add: sint_word_ariths signed_take_bit_int_eq_self)

text \<open>
  From an index inside the table the loop returns, having gone through \<open>k\<close> entries,
  at least one and at most those left: the count and the cursor have both grown by \<open>k\<close>.
\<close>

lemma readdir_loop_progress:
  "0 \<le> sint i \<Longrightarrow> sint i < 3 \<Longrightarrow> 3 \<le> length tab \<Longrightarrow>
   \<exists>k c'. readdir_loop tab i a cxt = Inr (a + of_nat k, c') \<and> pos c' = pos cxt + of_nat k
      \<and> 1 \<le> k \<and> int k \<le> 3 - sint i"
proof (induction tab i a cxt rule: readdir_loop.induct)
  case (1 tab i a cxt)
  let ?e = "tab ! nat (sint i)"
  obtain ok c where e: "dir_emit (cxt\<lparr>pos := pos cxt + 1\<rparr>) (name ?e) (length (name ?e))
                          (ino ?e) (type ?e) = (ok, c)"
    by (cases "dir_emit (cxt\<lparr>pos := pos cxt + 1\<rparr>) (name ?e) (length (name ?e))
                          (ino ?e) (type ?e)")
  then have p: "pos c = pos cxt + 1"
    using dir_emit_pos [OF e] by simp
  from "1.prems" have guard: "i <s 3" and inb: "\<not> (sint i < 0 \<or> int (length tab) \<le> sint i)"
    by (auto simp: word_sless_alt)
  have step: "readdir_loop tab i a cxt =
                (if \<not> ok then Inr (a + 1, c) else readdir_loop tab (i + 1) (a + 1) c)"
    using guard inb e by (subst readdir_loop.simps) simp
  show ?case
  proof (cases ok)
    case False
    with step p "1.prems" have "readdir_loop tab i a cxt = Inr (a + of_nat 1, c)
        \<and> pos c = pos cxt + of_nat 1 \<and> (1::nat) \<le> 1 \<and> int 1 \<le> 3 - sint i"
      by simp
    then show ?thesis by blast
  next
    case True
    have s1: "sint (i + 1) = sint i + 1" using "1.prems" by (simp add: sint_succ_below_3)
    show ?thesis
    proof (cases "sint i + 1 < 3")
      case lt: True
      with s1 "1.prems" have "0 \<le> sint (i + 1)" "sint (i + 1) < 3" by simp_all
      from "1.IH" [OF guard inb e [symmetric] _ this "1.prems"(3)] True
      obtain k c' where "readdir_loop tab (i + 1) (a + 1) c = Inr (a + 1 + of_nat k, c')"
        "pos c' = pos c + of_nat k" "1 \<le> k" "int k \<le> 3 - sint (i + 1)"
        by auto
      with step True p s1 have "readdir_loop tab i a cxt = Inr (a + of_nat (Suc k), c')
        \<and> pos c' = pos cxt + of_nat (Suc k) \<and> 1 \<le> Suc k \<and> int (Suc k) \<le> 3 - sint i"
        by (simp add: add.assoc)
      then show ?thesis by blast
    next
      case ge: False
      with s1 have "\<not> (i + 1) <s 3" by (simp add: word_sless_alt)
      then have "readdir_loop tab (i + 1) (a + 1) c = Inr (a + 1, c)"
        by (subst readdir_loop.simps) simp
      with step True p "1.prems" have "readdir_loop tab i a cxt = Inr (a + of_nat 1, c)
        \<and> pos c = pos cxt + of_nat 1 \<and> (1::nat) \<le> 1 \<and> int 1 \<le> 3 - sint i"
        by simp
      then show ?thesis by blast
    qed
  qed
qed

subsection \<open>The identity resolver\<close>

text \<open>
  Claim C9. \<^verbatim>\<open>simplefs_iget\<close> assigns its local entry pointer only for the inode
  numbers 1 and 2. For a new inode (a cache miss, with memory for the allocation) of any
  other number the pointer is still unassigned when the kind is read through it, whatever
  the table holds: the call is a read through an uninitialised pointer. For the numbers 1
  and 2 the pointer is assigned and the call on the catalog returns the inode.
\<close>

theorem iget_defined_only_for_1_and_2:
  assumes "s_inodes sb n = None" and "0 < s_avail sb"
  shows "(n \<noteq> 1 \<and> n \<noteq> 2 \<longrightarrow>
            iget_entry n = None \<and> simplefs_iget tab sb n = Inl UninitializedPointer)
       \<and> (n = 1 \<or> n = 2 \<longrightarrow>
            iget_entry n \<noteq> None \<and> (\<exists>sb'. simplefs_iget Entries sb n = Inr (sb', Ptr n)))"
  using assms
  by (auto simp: iget_fresh iget_entry_cases Entries_def iget_fill_reg_def iget_fill_dir_def
      DT_DIR_def DT_REG_def strlen_at_def rodata_def)

theorem iget_defined_only_for_1_and_2_witness:
  "s_inodes \<lparr>s_inodes = Map.empty, s_avail = 1\<rparr> 3 = None
   \<and> 0 < s_avail \<lparr>s_inodes = Map.empty, s_avail = 1\<rparr>
   \<and> iget_entry 3 = None
   \<and> simplefs_iget Entries \<lparr>s_inodes = Map.empty, s_avail = 1\<rparr> 3 = Inl UninitializedPointer
   \<and> iget_entry 2 = Some 2
   \<and> simplefs_iget Entries \<lparr>s_inodes = Map.empty, s_avail = 1\<rparr> 2 \<noteq> Inl UninitializedPointer"
  using iget_defined_only_for_1_and_2 [of "\<lparr>s_inodes = Map.empty, s_avail = 1\<rparr>" 3 Entries]
    iget_defined_only_for_1_and_2 [of "\<lparr>s_inodes = Map.empty, s_avail = 1\<rparr>" 2 Entries]
  by (auto simp: iget_entry_cases)

text \<open>
  Claim C5. A new inode (a cache miss, with memory for the allocation) is filled by the
  kind of the entry the resolver selected. A directory entry gives the mode
  \<^verbatim>\<open>S_IFDIR | 0555\<close> (a directory, read and traverse, no write bit), the size 512
  and the directory operations. A regular entry gives a regular file whose size is the
  \<^verbatim>\<open>strlen\<close> of the entry's content, the read-only file operations and the address
  space operations of this module, and \<open>i_private\<close> is the entry's content pointer
  itself: the same address in the read-only data, no copy. On the catalog, inode 2 has
  size 12 and points to \<^verbatim>\<open>"Hello World!"\<close>.
\<close>

theorem iget_fills_new_inode_by_kind:
  assumes "s_inodes sb n = None" and "0 < s_avail sb"
    and "iget_entry n = Some j" and "j < length tab"
  shows "(type (tab ! j) = DT_DIR \<longrightarrow>
           (\<exists>sb' i. simplefs_iget tab sb n = Inr (sb', Ptr n) \<and> s_inodes sb' n = Some i
              \<and> i_mode i = S_IFDIR OR MODE_0555
              \<and> i_mode i AND S_IFMT = S_IFDIR
              \<and> i_mode i AND MODE_0222 = 0
              \<and> i_size i = 512 \<and> i_fop i = dir_fops \<and> i_op i = dir_iops))
       \<and> (type (tab ! j) = DT_REG \<longrightarrow>
           (\<forall>len. strlen_at (content (tab ! j)) = Inr len \<longrightarrow>
              (\<exists>sb' i. simplefs_iget tab sb n = Inr (sb', Ptr n) \<and> s_inodes sb' n = Some i
                 \<and> i_mode i AND S_IFMT = S_IFREG
                 \<and> i_size i = of_nat len
                 \<and> i_fop i = generic_ro_fops \<and> a_ops i = reg_aops
                 \<and> i_private i = content (tab ! j))))
       \<and> (tab = Entries \<and> n = 2 \<longrightarrow>
           (\<exists>sb' i a. simplefs_iget tab sb n = Inr (sb', Ptr n) \<and> s_inodes sb' n = Some i
              \<and> i_size i = 12 \<and> i_private i = Some a \<and> content (Entries ! 2) = Some a
              \<and> rodata a = Some ''Hello World!''))"
proof (intro conjI impI allI)
  assume "type (tab ! j) = DT_DIR"
  then show "\<exists>sb' i. simplefs_iget tab sb n = Inr (sb', Ptr n) \<and> s_inodes sb' n = Some i
              \<and> i_mode i = S_IFDIR OR MODE_0555
              \<and> i_mode i AND S_IFMT = S_IFDIR
              \<and> i_mode i AND MODE_0222 = 0
              \<and> i_size i = 512 \<and> i_fop i = dir_fops \<and> i_op i = dir_iops"
    using assms
    by (simp add: iget_fresh iget_fill_reg_def iget_fill_dir_def DT_DIR_def DT_REG_def
        S_IFDIR_def S_IFMT_def MODE_0555_def MODE_0222_def)
next
  fix len
  assume "type (tab ! j) = DT_REG" and "strlen_at (content (tab ! j)) = Inr len"
  then show "\<exists>sb' i. simplefs_iget tab sb n = Inr (sb', Ptr n) \<and> s_inodes sb' n = Some i
                 \<and> i_mode i AND S_IFMT = S_IFREG
                 \<and> i_size i = of_nat len
                 \<and> i_fop i = generic_ro_fops \<and> a_ops i = reg_aops
                 \<and> i_private i = content (tab ! j)"
    using assms
    by (simp add: iget_fresh iget_fill_reg_def iget_fill_dir_def DT_DIR_def DT_REG_def
        S_IFREG_def S_IFMT_def MODE_0444_def)
next
  assume "tab = Entries \<and> n = 2"
  then show "\<exists>sb' i a. simplefs_iget tab sb n = Inr (sb', Ptr n) \<and> s_inodes sb' n = Some i
              \<and> i_size i = 12 \<and> i_private i = Some a \<and> content (Entries ! 2) = Some a
              \<and> rodata a = Some ''Hello World!''"
    using assms
    by (simp add: iget_fresh iget_entry_cases Entries_def iget_fill_reg_def iget_fill_dir_def
        DT_DIR_def DT_REG_def strlen_at_def rodata_def object_bytes_def NUL_def)
qed

theorem iget_fills_new_inode_by_kind_witness:
  "simplefs_iget Entries \<lparr>s_inodes = Map.empty, s_avail = 2\<rparr> 1 =
     Inr (\<lparr>s_inodes = [1 \<mapsto> \<lparr>i_ino = 1, i_mode = 0x416D, i_size = 512, i_blocks = 0,
              i_private = None, i_fop = dir_fops, i_op = dir_iops, a_ops = empty_aops,
              I_NEW = True\<rparr>],
           s_avail = 1\<rparr>, Ptr 1)
   \<and> simplefs_iget Entries \<lparr>s_inodes = Map.empty, s_avail = 2\<rparr> 2 =
     Inr (\<lparr>s_inodes = [2 \<mapsto> \<lparr>i_ino = 2, i_mode = 0x8124, i_size = 12, i_blocks = 1,
              i_private = Some 102, i_fop = generic_ro_fops, i_op = empty_iops,
              a_ops = reg_aops, I_NEW = True\<rparr>],
           s_avail = 1\<rparr>, Ptr 2)
   \<and> content (Entries ! 2) = Some 102"
  using iget_fills_new_inode_by_kind [of "\<lparr>s_inodes = Map.empty, s_avail = 2\<rparr>" 1 0 Entries]
    iget_fills_new_inode_by_kind [of "\<lparr>s_inodes = Map.empty, s_avail = 2\<rparr>" 2 2 Entries]
  by (simp add: iget_fresh iget_entry_cases Entries_def iget_fill_reg_def iget_fill_dir_def
      DT_DIR_def DT_REG_def strlen_at_def rodata_def object_bytes_def NUL_def alloc_inode_def
      S_IFDIR_def S_IFREG_def MODE_0555_def MODE_0444_def)

subsection \<open>Lookup\<close>

text \<open>
  Claim C8. For a name that no entry of the catalog has, \<^verbatim>\<open>simplefs_lookup\<close>
  calls \<^verbatim>\<open>d_splice_alias\<close> with \<^verbatim>\<open>NULL\<close>: it returns \<^verbatim>\<open>NULL\<close>, not an
  \<^verbatim>\<open>ERR_PTR\<close>, the dentry is negative (the host's "no entry"), and the inode cache
  is untouched.
\<close>

theorem lookup_unknown_name_is_negative:
  assumes "d_name d \<notin> name ` set Entries"
  shows "simplefs_lookup Entries sb d = Inr (sb, D_NULL, d\<lparr>d_inode := NULL\<rparr>)"
proof -
  have "\<forall>j. 0 \<le> j \<and> j < 3 \<longrightarrow> name (Entries ! j) \<noteq> d_name d"
    using assms by (auto simp: Entries_def nth_Cons split: nat.splits)
  moreover have "3 \<le> length Entries" by (simp add: Entries_def)
  ultimately have "lookup_loop Entries (d_name d) 0 sb NULL = Inr (sb, NULL)"
    by (rule lookup_loop_no_match [rotated])
  then show ?thesis
    by (simp add: simplefs_lookup_def d_splice_alias_def)
qed

theorem lookup_unknown_name_is_negative_witness:
  "''does-not-exist'' \<notin> name ` set Entries
   \<and> simplefs_lookup Entries \<lparr>s_inodes = Map.empty, s_avail = 5\<rparr>
        \<lparr>d_name = ''does-not-exist'', d_inode = NULL\<rparr>
     = Inr (\<lparr>s_inodes = Map.empty, s_avail = 5\<rparr>, D_NULL,
            \<lparr>d_name = ''does-not-exist'', d_inode = NULL\<rparr>)"
  using lookup_unknown_name_is_negative
    [of "\<lparr>d_name = ''does-not-exist'', d_inode = NULL\<rparr>" "\<lparr>s_inodes = Map.empty, s_avail = 5\<rparr>"]
  by (simp add: Entries_def)




subsection \<open>Names and identities\<close>

text \<open>
  Claim C4, as the code has it. Looking up the name of the catalog entry \<open>k\<close> (its
  inode not yet in the cache, memory left) attaches the inode of that entry's number, and
  \<^verbatim>\<open>simplefs_iget\<close> selects for that number an entry \<open>j\<close> of the same number. For
  \<^verbatim>\<open>.\<close> and \<^verbatim>\<open>message.txt\<close> the entry selected has the name looked up. For
  \<^verbatim>\<open>..\<close>, which shares the number 1 with \<^verbatim>\<open>.\<close>, it is the entry \<^verbatim>\<open>.\<close>.
\<close>

theorem name_identity_round_trip:
  assumes "k < 3" and "s_inodes sb (ino (Entries ! k)) = None" and "0 < s_avail sb"
    and "d_name d = name (Entries ! k)"
  shows "\<exists>sb' d' j. simplefs_lookup Entries sb d = Inr (sb', D_NULL, d')
           \<and> d_inode d' = Ptr (ino (Entries ! k))
           \<and> iget_entry (ino (Entries ! k)) = Some j
           \<and> ino (Entries ! j) = ino (Entries ! k)
           \<and> (k \<noteq> 1 \<longrightarrow> name (Entries ! j) = name (Entries ! k))
           \<and> (k = 1 \<longrightarrow> name (Entries ! j) = ''.'')"
proof -
  have len: "3 \<le> length Entries" by (simp add: Entries_nth)
  have uniq: "\<forall>j. j < 3 \<and> j \<noteq> k \<longrightarrow> name (Entries ! j) \<noteq> d_name d"
    using assms(1,4) by (auto simp: Entries_def nth_Cons split: nat.splits)
  have "lookup_loop Entries (d_name d) 0 sb NULL = simplefs_iget Entries sb (ino (Entries ! k))"
    using lookup_loop_only_match [where i = 0, OF len _ assms(1) assms(4) [symmetric] uniq]
    by simp
  then show ?thesis
    using less_3_cases [OF assms(1)] assms(2,3)
    by (auto simp: simplefs_lookup_def Entries_nth iget_fresh iget_entry_cases
        iget_fill_reg_def iget_fill_dir_def DT_DIR_def DT_REG_def strlen_at_def rodata_def
        d_splice_alias_def)
qed

theorem name_identity_round_trip_witness:
  "(\<exists>sb' d'. simplefs_lookup Entries \<lparr>s_inodes = Map.empty, s_avail = 1\<rparr>
                \<lparr>d_name = ''message.txt'', d_inode = NULL\<rparr> = Inr (sb', D_NULL, d')
             \<and> d_inode d' = Ptr 2)
   \<and> iget_entry 2 = Some 2
   \<and> name (Entries ! 2) = ''message.txt''"
  using name_identity_round_trip [of 2 "\<lparr>s_inodes = Map.empty, s_avail = 1\<rparr>"
      "\<lparr>d_name = ''message.txt'', d_inode = NULL\<rparr>"]
  by (auto simp: Entries_nth iget_entry_cases)

text \<open>
  Claim C4, as it is written, fails at the entry \<^verbatim>\<open>..\<close>: its lookup resolves the
  number 1, for which \<^verbatim>\<open>simplefs_iget\<close> selects entry 0, and the name of entry 0 is
  not \<^verbatim>\<open>..\<close>.
\<close>

theorem round_trip_fails_for_dotdot:
  "\<not> isl (simplefs_lookup Entries \<lparr>s_inodes = Map.empty, s_avail = 1\<rparr>
            \<lparr>d_name = name (Entries ! 1), d_inode = NULL\<rparr>)
   \<and> d_inode (snd (snd (projr (simplefs_lookup Entries \<lparr>s_inodes = Map.empty, s_avail = 1\<rparr>
        \<lparr>d_name = name (Entries ! 1), d_inode = NULL\<rparr>)))) = Ptr 1
   \<and> iget_entry 1 = Some 0
   \<and> name (Entries ! 0) \<noteq> name (Entries ! 1)"
  by (simp add: simplefs_lookup_def lookup_loop.simps [of _ _ 0] lookup_loop.simps [of _ _ 1]
      lookup_loop.simps [of _ _ 2] lookup_loop.simps [of _ _ 3] Entries_def
      iget_fresh iget_entry_cases iget_fill_reg_def iget_fill_dir_def
      DT_DIR_def DT_REG_def strlen_at_def rodata_def object_bytes_def NUL_def alloc_inode_def
      S_IFREG_def MODE_0444_def S_IFDIR_def MODE_0555_def d_splice_alias_def)

subsection \<open>Enumeration\<close>

text \<open>
  Claim C3. The cursor is a position in the catalog, so it is not negative. From such a
  cursor \<^verbatim>\<open>simplefs_readdir\<close> returns 0 only when the cursor is at or past the end
  of the catalog, 3; and from every cursor below 3 the call returns, its count is not 0
  (it is positive) and the cursor has moved forward.
\<close>

theorem readdir_zero_only_at_end:
  assumes "0 \<le> sint (pos cxt)"
  shows "(\<forall>cxt'. simplefs_readdir Entries cxt = Inr (0, cxt') \<longrightarrow> 3 \<le> sint (pos cxt))
       \<and> (sint (pos cxt) < 3 \<longrightarrow>
            (\<exists>n cxt'. simplefs_readdir Entries cxt = Inr (n, cxt') \<and> n \<noteq> 0 \<and> 0 <s n
               \<and> sint (pos cxt) < sint (pos cxt')))"
proof -
  have *: "\<exists>n cxt'. simplefs_readdir Entries cxt = Inr (n, cxt') \<and> n \<noteq> 0 \<and> 0 <s n
               \<and> sint (pos cxt) < sint (pos cxt')" if lt: "sint (pos cxt) < 3"
  proof -
    from pos_cases [OF assms lt]
    have i: "sint (ucast (pos cxt) :: 32 word) = sint (pos cxt)" by auto
    have "3 \<le> length Entries" by (simp add: Entries_def)
    from readdir_loop_progress [OF _ _ this, of "ucast (pos cxt)" 0 cxt] i assms lt
    obtain k c' where r: "simplefs_readdir Entries cxt = Inr (of_nat k, c')"
      and p: "pos c' = pos cxt + of_nat k" and k: "1 \<le> k" "k \<le> 3"
      by (auto simp: simplefs_readdir_def)
    from k have kc: "k = 1 \<or> k = 2 \<or> k = 3" by arith
    then have "(of_nat k :: 32 word) \<noteq> 0 \<and> 0 <s (of_nat k :: 32 word)"
      by (auto simp: word_sless_alt)
    moreover have "sint (pos cxt) < sint (pos c')"
      using pos_cases [OF assms lt] kc p by auto
    ultimately show ?thesis using r by blast
  qed
  show ?thesis
  proof (intro conjI allI impI)
    fix cxt' assume r: "simplefs_readdir Entries cxt = Inr (0, cxt')"
    show "3 \<le> sint (pos cxt)"
    proof (rule ccontr)
      assume "\<not> 3 \<le> sint (pos cxt)"
      then have "sint (pos cxt) < 3" by simp
      from * [OF this] r show False by auto
    qed
  qed (rule *)
qed

theorem readdir_zero_only_at_end_witness:
  "0 \<le> sint (pos \<lparr>pos = 0, actor = bounded_sink 8, sink = []\<rparr>)
   \<and> sint (pos \<lparr>pos = 0, actor = bounded_sink 8, sink = []\<rparr>) < 3
   \<and> (\<exists>n cxt'. simplefs_readdir Entries \<lparr>pos = 0, actor = bounded_sink 8, sink = []\<rparr>
                  = Inr (n, cxt') \<and> n \<noteq> 0 \<and> 0 <s n \<and> 0 < sint (pos cxt'))
   \<and> simplefs_readdir Entries \<lparr>pos = 3, actor = bounded_sink 8, sink = []\<rparr>
      = Inr (0, \<lparr>pos = 3, actor = bounded_sink 8, sink = []\<rparr>)"
  using readdir_zero_only_at_end [of "\<lparr>pos = 0, actor = bounded_sink 8, sink = []\<rparr>"]
  by (simp add: simplefs_readdir_def readdir_loop.simps [of _ 3])

text \<open>
  Claim C2 says that an entry the sink refuses is neither counted nor passed by the
  cursor. The code increments the count and the cursor before it offers the entry. With
  a buffer of one entry and the cursor at 0, the call delivers \<^verbatim>\<open>.\<close>, is refused
  \<^verbatim>\<open>..\<close>, and returns 2 with the cursor at 2; the next call, with an empty buffer,
  starts at \<^verbatim>\<open>message.txt\<close>, so \<^verbatim>\<open>..\<close> is never delivered.
\<close>

theorem readdir_counts_and_skips_refused_entry:
  "simplefs_readdir Entries \<lparr>pos = 0, actor = bounded_sink 1, sink = []\<rparr>
     = Inr (2, \<lparr>pos = 2, actor = bounded_sink 1,
                sink = [\<lparr>de_name = ''.'', de_namlen = 1, de_off = 1, de_ino = 1,
                         de_type = DT_DIR\<rparr>]\<rparr>)
   \<and> simplefs_readdir Entries \<lparr>pos = 2, actor = bounded_sink 1, sink = []\<rparr>
     = Inr (1, \<lparr>pos = 3, actor = bounded_sink 1,
                sink = [\<lparr>de_name = ''message.txt'', de_namlen = 11, de_off = 3, de_ino = 2,
                         de_type = DT_REG\<rparr>]\<rparr>)"
  by (simp add: simplefs_readdir_def readdir_loop.simps [of _ 0] readdir_loop.simps [of _ 1]
      readdir_loop.simps [of _ 2] readdir_loop.simps [of _ 3] word_sless_alt
      Entries_nth dir_emit_def bounded_sink_def)

subsection \<open>Reading a page\<close>

text \<open>
  Claim C1. For the inode of a regular file that \<^verbatim>\<open>simplefs_iget\<close> has just made
  from the catalog, and a page of \<^verbatim>\<open>PAGE_SIZE\<close> bytes, \<^verbatim>\<open>simplefs_read_folio\<close>
  and \<^verbatim>\<open>simplefs_readpage\<close> return 0 with the page marked up to date and unlocked,
  whatever the index is, so on the path that copies and on the path that skips the copy;
  neither has a fault or another return value.
\<close>

theorem read_folio_always_ready:
  assumes "s_inodes sb n = None" and "simplefs_iget Entries sb n = Inr (sb', Ptr n)"
    and "s_inodes sb' n = Some inode" and "i_mode inode AND S_IFMT = S_IFREG"
    and "length (data f) = PAGE_SIZE"
  shows "(\<exists>f'. simplefs_read_folio inode f = Inr (0, f') \<and> uptodate f' \<and> \<not> locked f')
       \<and> (\<exists>p'. simplefs_readpage inode f = Inr (0, p') \<and> uptodate p' \<and> \<not> locked p')"
  using iget_new_regular [OF assms(1-4)] assms(5)
  by (simp add: simplefs_read_folio_def simplefs_readpage_def memcpy_hello PAGE_SIZE_def
      folio_unlock_def folio_mark_uptodate_def unlock_page_def SetPageUptodate_def)

theorem read_folio_always_ready_witness:
  "(\<exists>f'. simplefs_read_folio
         \<lparr>i_ino = 2, i_mode = 0x8124, i_size = 12, i_blocks = 1,
          i_private = Some 102, i_fop = generic_ro_fops, i_op = empty_iops,
          a_ops = reg_aops, I_NEW = True\<rparr>
         \<lparr>index = 13, data = replicate 4096 (CHR ''x''), uptodate = False, locked = True\<rparr>
        = Inr (0, f') \<and> uptodate f' \<and> \<not> locked f')
   \<and> (\<exists>p'. simplefs_readpage
         \<lparr>i_ino = 2, i_mode = 0x8124, i_size = 12, i_blocks = 1,
          i_private = Some 102, i_fop = generic_ro_fops, i_op = empty_iops,
          a_ops = reg_aops, I_NEW = True\<rparr>
         \<lparr>index = 0, data = replicate 4096 (CHR ''x''), uptodate = False, locked = True\<rparr>
        = Inr (0, p') \<and> uptodate p' \<and> \<not> locked p')"
proof -
  let ?sb = "\<lparr>s_inodes = Map.empty, s_avail = 1\<rparr>"
  let ?i = "\<lparr>i_ino = 2, i_mode = 0x8124, i_size = 12, i_blocks = 1,
             i_private = Some 102, i_fop = generic_ro_fops, i_op = empty_iops,
             a_ops = reg_aops, I_NEW = True\<rparr>"
  let ?sb' = "\<lparr>s_inodes = [2 \<mapsto> ?i], s_avail = 0\<rparr>"
  let ?f = "\<lparr>index = 13, data = replicate 4096 (CHR ''x''), uptodate = False, locked = True\<rparr>"
  let ?g = "\<lparr>index = 0, data = replicate 4096 (CHR ''x''), uptodate = False, locked = True\<rparr>"
  have h1: "s_inodes ?sb 2 = None" by simp
  have h2: "simplefs_iget Entries ?sb 2 = Inr (?sb', Ptr 2)" by (rule iget_catalog_2)
  have h3: "s_inodes ?sb' 2 = Some ?i" by simp
  have h4: "i_mode ?i AND S_IFMT = S_IFREG" by (simp add: S_IFMT_def S_IFREG_def)
  have h5: "length (data ?f) = PAGE_SIZE" "length (data ?g) = PAGE_SIZE"
    by (simp_all add: PAGE_SIZE_def)
  from read_folio_always_ready [OF h1 h2 h3 h4 h5(1)]
    read_folio_always_ready [OF h1 h2 h3 h4 h5(2)]
  show ?thesis by blast
qed

text \<open>
  Claim C6. For the same inode and page: when the index of the page is greater than
  \<open>i_size\<close>, nothing is copied and the bytes of the page are as before. Otherwise the
  first \<open>i_size\<close> bytes of the page are the first \<open>i_size\<close> bytes of the object
  \<open>i_private\<close> points to, and the bytes of the page after them are as before (they are
  not zeroed); the page keeps its length.
\<close>

theorem read_folio_copies_size_bytes:
  assumes "s_inodes sb n = None" and "simplefs_iget Entries sb n = Inr (sb', Ptr n)"
    and "s_inodes sb' n = Some inode" and "i_mode inode AND S_IFMT = S_IFREG"
    and "length (data f) = PAGE_SIZE"
  shows "(index f > i_size inode \<longrightarrow>
           (\<exists>f'. simplefs_read_folio inode f = Inr (0, f') \<and> data f' = data f)
         \<and> (\<exists>p'. simplefs_readpage inode f = Inr (0, p') \<and> data p' = data f))
       \<and> (\<not> index f > i_size inode \<longrightarrow>
           (\<exists>f' a s. simplefs_read_folio inode f = Inr (0, f')
              \<and> i_private inode = Some a \<and> rodata a = Some s
              \<and> take (unat (i_size inode)) (data f') = take (unat (i_size inode)) (object_bytes s)
              \<and> drop (unat (i_size inode)) (data f') = drop (unat (i_size inode)) (data f)
              \<and> length (data f') = length (data f))
         \<and> (\<exists>p' a s. simplefs_readpage inode f = Inr (0, p')
              \<and> i_private inode = Some a \<and> rodata a = Some s
              \<and> take (unat (i_size inode)) (data p') = take (unat (i_size inode)) (object_bytes s)
              \<and> drop (unat (i_size inode)) (data p') = drop (unat (i_size inode)) (data f)
              \<and> length (data p') = length (data f)))"
  using iget_new_regular [OF assms(1-4)] assms(5)
  by (simp add: simplefs_read_folio_def simplefs_readpage_def memcpy_hello PAGE_SIZE_def
      folio_unlock_def folio_mark_uptodate_def unlock_page_def SetPageUptodate_def
      rodata_def object_bytes_def)

theorem read_folio_copies_size_bytes_witness:
  "simplefs_read_folio
      \<lparr>i_ino = 2, i_mode = 0x8124, i_size = 12, i_blocks = 1,
       i_private = Some 102, i_fop = generic_ro_fops, i_op = empty_iops,
       a_ops = reg_aops, I_NEW = True\<rparr>
      \<lparr>index = 0, data = replicate 4096 (CHR ''x''), uptodate = False, locked = True\<rparr>
     = Inr (0, \<lparr>index = 0, data = ''Hello World!'' @ replicate 4084 (CHR ''x''),
                uptodate = True, locked = False\<rparr>)
   \<and> simplefs_read_folio
      \<lparr>i_ino = 2, i_mode = 0x8124, i_size = 12, i_blocks = 1,
       i_private = Some 102, i_fop = generic_ro_fops, i_op = empty_iops,
       a_ops = reg_aops, I_NEW = True\<rparr>
      \<lparr>index = 13, data = replicate 4096 (CHR ''x''), uptodate = False, locked = True\<rparr>
     = Inr (0, \<lparr>index = 13, data = replicate 4096 (CHR ''x''),
                uptodate = True, locked = False\<rparr>)"
proof -
  let ?sb = "\<lparr>s_inodes = Map.empty, s_avail = 1\<rparr>"
  let ?i = "\<lparr>i_ino = 2, i_mode = 0x8124, i_size = 12, i_blocks = 1,
             i_private = Some 102, i_fop = generic_ro_fops, i_op = empty_iops,
             a_ops = reg_aops, I_NEW = True\<rparr>"
  let ?sb' = "\<lparr>s_inodes = [2 \<mapsto> ?i], s_avail = 0\<rparr>"
  let ?f = "\<lparr>index = 0, data = replicate 4096 (CHR ''x''), uptodate = False, locked = True\<rparr>"
  let ?g = "\<lparr>index = 13, data = replicate 4096 (CHR ''x''), uptodate = False, locked = True\<rparr>"
  have h1: "s_inodes ?sb 2 = None" by simp
  have h2: "simplefs_iget Entries ?sb 2 = Inr (?sb', Ptr 2)" by (rule iget_catalog_2)
  have h3: "s_inodes ?sb' 2 = Some ?i" by simp
  have h4: "i_mode ?i AND S_IFMT = S_IFREG" by (simp add: S_IFMT_def S_IFREG_def)
  have h5: "length (data ?f) = PAGE_SIZE" "length (data ?g) = PAGE_SIZE"
    by (simp_all add: PAGE_SIZE_def)
  from read_folio_copies_size_bytes [OF h1 h2 h3 h4 h5(1)]
    read_folio_copies_size_bytes [OF h1 h2 h3 h4 h5(2)]
  show ?thesis
    by (simp add: simplefs_read_folio_def memcpy_hello folio_unlock_def folio_mark_uptodate_def)
qed

subsection \<open>Module initialisation and exit\<close>

text \<open>
  Claim C10. \<^verbatim>\<open>simplefs_init\<close> returns 0 whatever \<^verbatim>\<open>register_filesystem\<close>
  answers, also when the registration fails (the name is registered already); the answer
  is kept in \<^verbatim>\<open>ret\<close>. \<^verbatim>\<open>simplefs_exit\<close> calls \<^verbatim>\<open>unregister_filesystem\<close>
  when \<^verbatim>\<open>ret\<close> is 0 and leaves the host as it is otherwise.
\<close>

theorem init_returns_0_exit_follows_ret:
  "fst (simplefs_init k) = 0
   \<and> ret (snd (simplefs_init k)) = fst (register_filesystem simple_fs_type k)
   \<and> filesystems (snd (simplefs_init k))
       = filesystems (snd (register_filesystem simple_fs_type k))
   \<and> (simple_fs_type \<in> set (filesystems k) \<longrightarrow>
         fst (simplefs_init k) = 0 \<and> ret (snd (simplefs_init k)) \<noteq> 0)
   \<and> (ret k \<noteq> 0 \<longrightarrow> simplefs_exit k = k)
   \<and> (ret k = 0 \<longrightarrow> simplefs_exit k = snd (unregister_filesystem simple_fs_type k))"
  by (simp add: simplefs_init_def simplefs_exit_def register_filesystem_def EBUSY_def
      split: prod.splits)

theorem init_returns_0_exit_follows_ret_witness:
  "fst (simplefs_init \<lparr>filesystems = [''ext4'', ''simplefs''], ret = 0\<rparr>) = 0
   \<and> ret (snd (simplefs_init \<lparr>filesystems = [''ext4'', ''simplefs''], ret = 0\<rparr>)) = - 16
   \<and> simplefs_exit (snd (simplefs_init \<lparr>filesystems = [''ext4'', ''simplefs''], ret = 0\<rparr>))
       = \<lparr>filesystems = [''ext4'', ''simplefs''], ret = - 16\<rparr>
   \<and> fst (simplefs_init \<lparr>filesystems = [''ext4''], ret = 0\<rparr>) = 0
   \<and> snd (simplefs_init \<lparr>filesystems = [''ext4''], ret = 0\<rparr>)
       = \<lparr>filesystems = [''ext4'', ''simplefs''], ret = 0\<rparr>
   \<and> simplefs_exit (snd (simplefs_init \<lparr>filesystems = [''ext4''], ret = 0\<rparr>))
       = \<lparr>filesystems = [''ext4''], ret = 0\<rparr>"
  using init_returns_0_exit_follows_ret [of "\<lparr>filesystems = [''ext4'', ''simplefs''], ret = 0\<rparr>"]
    init_returns_0_exit_follows_ret [of "snd (simplefs_init \<lparr>filesystems = [''ext4''], ret = 0\<rparr>)"]
  by (simp add: simplefs_init_def simplefs_exit_def register_filesystem_def
      unregister_filesystem_def EBUSY_def simple_fs_type_def)

end
